theory Spec2Isabelle
  imports Main
begin

section \<open>The document store facade of \<open>store.go\<close>\<close>

text \<open>
  \<open>store.go\<close> wraps a Firestore client. Every method builds a query (or takes a document
  reference), makes one call into the client (\<open>Add\<close>: two) and maps the client's answer to
  its own results and errors. The client, the query builder, \<open>fmt\<close> and \<open>pkg/errors\<close> are
  libraries outside the repository: the client is a parameter of every operation below, and
  the few library functions the methods call are modelled next to their use.

  The constructor \<open>New\<close> only obtains the client from the Firebase SDK; the operations below
  take the client it would return.

  The \<open>context.Context\<close> argument of every method carries only cancellation and deadlines;
  it is part of the client state \<open>'s\<close> here. The model is sequential: nothing else changes
  the database between the two client calls of \<open>Add\<close>.
\<close>

subsection \<open>Values, documents and queries\<close>

text \<open>
  A Go \<open>interface{}\<close> argument holds a value of any dynamic type. The values that the
  database stores are listed here; \<open>VString\<close> is the boxing of a Go \<open>string\<close>.
\<close>

datatype fvalue =
    VNull
  | VBool bool
  | VInt int
  | VString string
  | VArray "fvalue list"
  | VMap "(string \<times> fvalue) list"

text \<open>\<open>firestore.Direction\<close>: \<open>Asc\<close> and \<open>Desc\<close>.\<close>

datatype Direction = Asc | Desc

text \<open>\<open>*firestore.DocumentRef\<close>: the collection and the identifier of a document.\<close>

record DocumentRef =
  Parent :: string
  ID :: string

text \<open>\<open>*firestore.DocumentSnapshot\<close>: the reference of a document and its fields as read.\<close>

record DocumentSnapshot =
  Ref :: DocumentRef
  Data :: "(string \<times> fvalue) list"

text \<open>
  \<open>firestore.Query\<close> as the builder calls of the source leave it: the collection, the
  filters in the order of the \<open>Where\<close> calls, the orderings in the order of the \<open>OrderBy\<close>
  calls, and the limit when \<open>Limit\<close> was called.
\<close>

record Query =
  collection :: string
  filters :: "(string \<times> string \<times> fvalue) list"
  orders :: "(string \<times> Direction) list"
  limit :: "int option"

definition Collection :: "string \<Rightarrow> Query" where
  "Collection c = \<lparr>collection = c, filters = [], orders = [], limit = None\<rparr>"

definition Where :: "string \<Rightarrow> string \<Rightarrow> fvalue \<Rightarrow> Query \<Rightarrow> Query" where
  "Where f op v q = q\<lparr>filters := filters q @ [(f, op, v)]\<rparr>"

definition OrderBy :: "string \<Rightarrow> Direction \<Rightarrow> Query \<Rightarrow> Query" where
  "OrderBy p dir q = q\<lparr>orders := orders q @ [(p, dir)]\<rparr>"

definition Limit :: "int \<Rightarrow> Query \<Rightarrow> Query" where
  "Limit n q = q\<lparr>limit := Some n\<rparr>"

subsection \<open>The client\<close>

text \<open>
  \<open>fs.Client\<close>: the five calls that \<open>store.go\<close> makes into the Firestore client. \<open>'s\<close> is
  the state of the service as the client sees it, \<open>'e\<close> the client's own errors. A call
  that returns \<open>(x, err)\<close> in Go returns \<open>Inl err\<close> or \<open>Inr x\<close>; the source reads \<open>x\<close> only
  when \<open>err == nil\<close>. \<open>Documents(ctx).GetAll()\<close> returns non-nil snapshot pointers.
\<close>

record ('s, 'e) Client =
  Documents_GetAll :: "Query \<Rightarrow> 's \<Rightarrow> 'e + DocumentSnapshot list"
  Collection_Add :: "string \<Rightarrow> fvalue \<Rightarrow> 's \<Rightarrow> ('e + DocumentRef) \<times> 's"
  DocumentRef_Get :: "DocumentRef \<Rightarrow> 's \<Rightarrow> 'e + DocumentSnapshot"
  DocumentRef_Set :: "DocumentRef \<Rightarrow> fvalue \<Rightarrow> 's \<Rightarrow> 'e option \<times> 's"
  DocumentRef_Delete :: "DocumentRef \<Rightarrow> 's \<Rightarrow> 'e option \<times> 's"

subsection \<open>Errors\<close>

text \<open>
  The Go \<open>error\<close> values that the methods return: the four package-level values of lines
  13 to 24 (each one value, compared by identity), an error of the client passed on as it
  is, and an error wrapped by \<open>errors.Wrap\<close> or \<open>errors.Wrapf\<close> with a message (the stack
  trace that \<open>pkg/errors\<close> records is left out).
\<close>

datatype 'e store_error =
    ErrNotFound
  | ErrInvalidID
  | ErrDocsNotFound
  | ErrForbidden
  | ClientError 'e
  | WithMessage "'e store_error" string

text \<open>\<open>Error()\<close>: the message of an error; \<open>cmsg\<close> gives the messages of the client's errors.\<close>

fun Error :: "('e \<Rightarrow> string) \<Rightarrow> 'e store_error \<Rightarrow> string" where
  "Error cmsg ErrNotFound = ''document not found''"
| "Error cmsg ErrInvalidID = ''ID is not in its proper form''"
| "Error cmsg ErrDocsNotFound = ''error getting documents snapshots''"
| "Error cmsg ErrForbidden = ''attempted action is not allowed''"
| "Error cmsg (ClientError e) = cmsg e"
| "Error cmsg (WithMessage cause msg) = msg @ '': '' @ Error cmsg cause"

text \<open>\<open>errors.Cause\<close>: the innermost error under the wrappers.\<close>

fun Cause :: "'e store_error \<Rightarrow> 'e store_error" where
  "Cause (WithMessage cause msg) = Cause cause"
| "Cause err = err"

text \<open>\<open>errors.Wrap(err, message)\<close> for a non-nil \<open>err\<close>.\<close>

definition Wrap :: "'e store_error \<Rightarrow> string \<Rightarrow> 'e store_error" where
  "Wrap err message = WithMessage err message"

text \<open>
  \<open>fmt.Sprintf\<close> for string arguments and the verb \<open>%s\<close>, the only one the source uses:
  \<open>%s\<close> prints the next argument, or \<open>%!s(MISSING)\<close> when the arguments have run out;
  \<open>%%\<close> prints a percent sign; arguments left over are reported at the end.
\<close>

fun Sprintf_extra :: "string list \<Rightarrow> string" where
  "Sprintf_extra [] = []"
| "Sprintf_extra [a] = ''string='' @ a"
| "Sprintf_extra (a # as) = ''string='' @ a @ '', '' @ Sprintf_extra as"

fun Sprintf :: "string \<Rightarrow> string list \<Rightarrow> string" where
  "Sprintf [] [] = []"
| "Sprintf [] (a # as) = ''%!(EXTRA '' @ Sprintf_extra (a # as) @ '')''"
| "Sprintf (c # d # fmt) args =
     (if c = CHR ''%'' \<and> d = CHR ''s'' then
        (case args of
           [] \<Rightarrow> ''%!s(MISSING)'' @ Sprintf fmt []
         | a # as \<Rightarrow> a @ Sprintf fmt as)
      else if c = CHR ''%'' \<and> d = CHR ''%'' then CHR ''%'' # Sprintf fmt args
      else c # Sprintf (d # fmt) args)"
| "Sprintf [c] args =
     (if c = CHR ''%'' then ''%!(NOVERB)'' @ Sprintf [] args else c # Sprintf [] args)"

text \<open>\<open>errors.Wrapf(err, format, args...)\<close> for a non-nil \<open>err\<close>.\<close>

definition Wrapf :: "'e store_error \<Rightarrow> string \<Rightarrow> string list \<Rightarrow> 'e store_error" where
  "Wrapf err format args = WithMessage err (Sprintf format args)"

text \<open>
  Indexing a slice, \<open>ds[i]\<close>: Go panics with an index-out-of-range runtime error when \<open>i\<close>
  is not below \<open>len(ds)\<close>.
\<close>

datatype runtime_panic = IndexOutOfRange int int

definition index_slice :: "'a list \<Rightarrow> int \<Rightarrow> runtime_panic + 'a" where
  "index_slice ds i =
     (if 0 \<le> i \<and> i < int (length ds) then Inr (ds ! nat i)
      else Inl (IndexOutOfRange i (int (length ds))))"

subsection \<open>The find operations\<close>

text \<open>
  Each find method returns \<open>(nil, err)\<close> or \<open>(result, nil)\<close>: \<open>Inl err\<close> or \<open>Inr result\<close>
  here. The two find-one methods index the slice, which can panic in Go, so their result
  is a panic or that sum.
\<close>

definition FindOneByField ::
  "('s, 'e) Client \<Rightarrow> string \<Rightarrow> string \<Rightarrow> string \<Rightarrow> fvalue \<Rightarrow> 's
    \<Rightarrow> runtime_panic + ('e store_error + DocumentSnapshot)" where
  "FindOneByField fs c f op v s =
     (case Documents_GetAll fs (Limit 1 (Where f op v (Collection c))) s of
        Inl err \<Rightarrow> Inr (Inl ErrDocsNotFound)
      | Inr ds \<Rightarrow>
          if int (length ds) \<le> 0 then Inr (Inl ErrNotFound)
          else (case index_slice ds 0 of
                  Inl p \<Rightarrow> Inl p
                | Inr d \<Rightarrow> Inr (Inr d)))"

definition FindOneByTwoFields ::
  "('s, 'e) Client \<Rightarrow> string \<Rightarrow> string \<Rightarrow> string \<Rightarrow> fvalue \<Rightarrow> string \<Rightarrow> string \<Rightarrow> fvalue \<Rightarrow> 's
    \<Rightarrow> runtime_panic + ('e store_error + DocumentSnapshot)" where
  "FindOneByTwoFields fs c ff fop fv sf sop sv s =
     (case Documents_GetAll fs
             (Limit 1 (Where sf sop sv (Where ff fop fv (Collection c)))) s of
        Inl err \<Rightarrow> Inr (Inl ErrDocsNotFound)
      | Inr ds \<Rightarrow>
          if int (length ds) \<le> 0 then Inr (Inl ErrNotFound)
          else (case index_slice ds 0 of
                  Inl p \<Rightarrow> Inl p
                | Inr d \<Rightarrow> Inr (Inr d)))"

definition FindAllByField ::
  "('s, 'e) Client \<Rightarrow> string \<Rightarrow> string \<Rightarrow> string \<Rightarrow> fvalue \<Rightarrow> 's
    \<Rightarrow> 'e store_error + DocumentSnapshot list" where
  "FindAllByField fs c f op v s =
     (case Documents_GetAll fs (Where f op v (Collection c)) s of
        Inl err \<Rightarrow> Inl ErrDocsNotFound
      | Inr ds \<Rightarrow> if int (length ds) \<le> 0 then Inl ErrNotFound else Inr ds)"

text \<open>
  \<open>FindAllByFieldAndOrder\<close> also prints the client's error to standard output before it
  returns; the print changes nothing that the method returns.
\<close>

definition FindAllByFieldAndOrder ::
  "('s, 'e) Client \<Rightarrow> string \<Rightarrow> string \<Rightarrow> string \<Rightarrow> fvalue \<Rightarrow> string \<Rightarrow> Direction \<Rightarrow> 's
    \<Rightarrow> 'e store_error + DocumentSnapshot list" where
  "FindAllByFieldAndOrder fs c f op v p dir s =
     (case Documents_GetAll fs (OrderBy p dir (Where f op v (Collection c))) s of
        Inl err \<Rightarrow> Inl ErrDocsNotFound
      | Inr ds \<Rightarrow> if int (length ds) \<le> 0 then Inl ErrNotFound else Inr ds)"

definition FindAllByTwoFields ::
  "('s, 'e) Client \<Rightarrow> string \<Rightarrow> string \<Rightarrow> string \<Rightarrow> fvalue \<Rightarrow> string \<Rightarrow> string \<Rightarrow> fvalue \<Rightarrow> 's
    \<Rightarrow> 'e store_error + DocumentSnapshot list" where
  "FindAllByTwoFields fs c ff fop fv sf sop sv s =
     (case Documents_GetAll fs (Where sf sop sv (Where ff fop fv (Collection c))) s of
        Inl err \<Rightarrow> Inl ErrDocsNotFound
      | Inr ds \<Rightarrow> if int (length ds) \<le> 0 then Inl ErrNotFound else Inr ds)"

text \<open>\<open>FindFromArray\<close> declares its value \<open>v string\<close>: the filter value is a string.\<close>

definition FindFromArray ::
  "('s, 'e) Client \<Rightarrow> string \<Rightarrow> string \<Rightarrow> string \<Rightarrow> 's
    \<Rightarrow> 'e store_error + DocumentSnapshot list" where
  "FindFromArray fs c f v s =
     (case Documents_GetAll fs (Where f ''array-contains'' (VString v) (Collection c)) s of
        Inl err \<Rightarrow> Inl ErrDocsNotFound
      | Inr ds \<Rightarrow> if int (length ds) \<le> 0 then Inl ErrNotFound else Inr ds)"

definition GetAll ::
  "('s, 'e) Client \<Rightarrow> string \<Rightarrow> 's \<Rightarrow> 'e store_error + DocumentSnapshot list" where
  "GetAll fs c s =
     (case Documents_GetAll fs (Collection c) s of
        Inl err \<Rightarrow> Inl ErrDocsNotFound
      | Inr ds \<Rightarrow> if int (length ds) \<le> 0 then Inl ErrNotFound else Inr ds)"

definition GetAllByOrder ::
  "('s, 'e) Client \<Rightarrow> string \<Rightarrow> string \<Rightarrow> Direction \<Rightarrow> 's
    \<Rightarrow> 'e store_error + DocumentSnapshot list" where
  "GetAllByOrder fs c p dir s =
     (case Documents_GetAll fs (OrderBy p dir (Collection c)) s of
        Inl err \<Rightarrow> Inl ErrDocsNotFound
      | Inr ds \<Rightarrow> if int (length ds) \<le> 0 then Inl ErrNotFound else Inr ds)"

subsection \<open>The mutations\<close>

text \<open>
  A mutation returns its result and the state of the service after the call. \<open>Delete\<close> and
  \<open>Update\<close> return only an \<open>error\<close>: \<open>None\<close> is \<open>nil\<close>.
\<close>

definition Delete ::
  "('s, 'e) Client \<Rightarrow> DocumentRef \<Rightarrow> 's \<Rightarrow> 'e store_error option \<times> 's" where
  "Delete fs ref s =
     (case DocumentRef_Delete fs ref s of
        (Some err, s') \<Rightarrow> (Some (ClientError err), s')
      | (None, s') \<Rightarrow> (None, s'))"

definition Add ::
  "('s, 'e) Client \<Rightarrow> string \<Rightarrow> fvalue \<Rightarrow> 's \<Rightarrow> ('e store_error + DocumentSnapshot) \<times> 's" where
  "Add fs c d s =
     (case Collection_Add fs c d s of
        (Inl err, s') \<Rightarrow> (Inl (Wrap (ClientError err) ''adding document''), s')
      | (Inr dRef, s') \<Rightarrow>
          (case DocumentRef_Get fs dRef s' of
             Inl err \<Rightarrow>
               (Inl (Wrap (ClientError err) ''getting document snapshot from firebase''), s')
           | Inr ds \<Rightarrow> (Inr ds, s')))"

definition Update ::
  "('s, 'e) Client \<Rightarrow> DocumentRef \<Rightarrow> fvalue \<Rightarrow> 's \<Rightarrow> 'e store_error option \<times> 's" where
  "Update fs df data s =
     (case DocumentRef_Set fs df data s of
        (Some err, s') \<Rightarrow> (Some (Wrapf (ClientError err) ''updating document %s'' []), s')
      | (None, s') \<Rightarrow> (None, s'))"

subsection \<open>An in-memory client\<close>

text \<open>
  Modelled from the spec: the Firestore client and the service behind it are not part of
  the repository. \<open>mem_client\<close> is a client over a list of documents that answers the five
  calls as the spec describes the collaborator: a query returns the documents of the
  collection that satisfy every filter (chained \<open>Where\<close> calls are a conjunction), sorted
  by the ordering fields, cut at the limit; \<open>Add\<close> stores a new document under a fresh
  identifier; \<open>Set\<close> overwrites the fields it is given and keeps the others; \<open>Delete\<close>
  removes the document. A store that is not \<open>online\<close> fails every call: the simulated
  transport failure of the spec. It serves the example scenario of the spec and the
  concrete instances of the theorems below.
\<close>

datatype mem_error = Unavailable | InvalidArgument | NotFound

record mem_store =
  online :: bool
  documents :: "(DocumentRef \<times> (string \<times> fvalue) list) list"
  fresh_ids :: "string list"

text \<open>
  Values are ordered inside one type only: booleans, integers, and strings byte by byte.
  Values of two different types are ordered by type; arrays and maps are not ordered
  among themselves.
\<close>

fun type_rank :: "fvalue \<Rightarrow> nat" where
  "type_rank VNull = 0"
| "type_rank (VBool b) = 1"
| "type_rank (VInt i) = 2"
| "type_rank (VString x) = 3"
| "type_rank (VArray xs) = 4"
| "type_rank (VMap m) = 5"

fun string_less :: "string \<Rightarrow> string \<Rightarrow> bool" where
  "string_less [] [] = False"
| "string_less [] (y # ys) = True"
| "string_less (x # xs) [] = False"
| "string_less (x # xs) (y # ys) =
     ((of_char x :: nat) < of_char y \<or> (x = y \<and> string_less xs ys))"

fun value_less :: "fvalue \<Rightarrow> fvalue \<Rightarrow> bool" where
  "value_less (VBool a) (VBool b) = (\<not> a \<and> b)"
| "value_less (VInt a) (VInt b) = (a < b)"
| "value_less (VString a) (VString b) = string_less a b"
| "value_less a b = (type_rank a < type_rank b)"

definition valid_op :: "string \<Rightarrow> bool" where
  "valid_op op = (op \<in> set [''=='', ''<'', ''<='', ''>'', ''>='', ''array-contains''])"

text \<open>\<open>holds op x v\<close>: the stored value \<open>x\<close> satisfies the comparison \<open>op\<close> with \<open>v\<close>.\<close>

definition holds :: "string \<Rightarrow> fvalue \<Rightarrow> fvalue \<Rightarrow> bool" where
  "holds op x v =
     (if op = ''=='' then x = v
      else if op = ''<'' then type_rank x = type_rank v \<and> value_less x v
      else if op = ''<='' then type_rank x = type_rank v \<and> (value_less x v \<or> x = v)
      else if op = ''>'' then type_rank x = type_rank v \<and> value_less v x
      else if op = ''>='' then type_rank x = type_rank v \<and> (value_less v x \<or> x = v)
      else if op = ''array-contains'' then (case x of VArray xs \<Rightarrow> v \<in> set xs | _ \<Rightarrow> False)
      else False)"

definition satisfies :: "(string \<times> fvalue) list \<Rightarrow> string \<times> string \<times> fvalue \<Rightarrow> bool" where
  "satisfies kvs flt =
     (case flt of (f, op, v) \<Rightarrow>
        (case map_of kvs f of None \<Rightarrow> False | Some x \<Rightarrow> holds op x v))"

definition key_less :: "string \<Rightarrow> Direction \<Rightarrow> DocumentSnapshot \<Rightarrow> DocumentSnapshot \<Rightarrow> bool" where
  "key_less p dir a b =
     (case (map_of (Data a) p, map_of (Data b) p) of
        (Some x, Some y) \<Rightarrow> (case dir of Asc \<Rightarrow> value_less x y | Desc \<Rightarrow> value_less y x)
      | _ \<Rightarrow> False)"

fun insert_by :: "('a \<Rightarrow> 'a \<Rightarrow> bool) \<Rightarrow> 'a \<Rightarrow> 'a list \<Rightarrow> 'a list" where
  "insert_by lt x [] = [x]"
| "insert_by lt x (y # ys) = (if lt y x then y # insert_by lt x ys else x # y # ys)"

text \<open>A stable sort by one field; a document without the field is left out of the result.\<close>

definition sort_by :: "string \<times> Direction \<Rightarrow> DocumentSnapshot list \<Rightarrow> DocumentSnapshot list" where
  "sort_by ord ds =
     (case ord of (p, dir) \<Rightarrow>
        foldr (insert_by (key_less p dir)) (filter (\<lambda>d. map_of (Data d) p \<noteq> None) ds) [])"

definition mem_GetAll :: "Query \<Rightarrow> mem_store \<Rightarrow> mem_error + DocumentSnapshot list" where
  "mem_GetAll q s =
     (if \<not> online s then Inl Unavailable
      else if \<not> list_all (\<lambda>flt. valid_op (fst (snd flt))) (filters q) then Inl InvalidArgument
      else
        let found = map (\<lambda>(r, kvs). \<lparr>Ref = r, Data = kvs\<rparr>)
                      (filter (\<lambda>(r, kvs). Parent r = collection q
                                 \<and> list_all (satisfies kvs) (filters q))
                         (documents s));
            sorted = foldr sort_by (orders q) found
        in (case limit q of
              None \<Rightarrow> Inr sorted
            | Some n \<Rightarrow> if n < 0 then Inl InvalidArgument else Inr (take (nat n) sorted)))"

definition mem_Add :: "string \<Rightarrow> fvalue \<Rightarrow> mem_store \<Rightarrow> (mem_error + DocumentRef) \<times> mem_store" where
  "mem_Add c d s =
     (if \<not> online s then (Inl Unavailable, s)
      else (case d of
              VMap kvs \<Rightarrow>
                (case fresh_ids s of
                   [] \<Rightarrow> (Inl Unavailable, s)
                 | i # ids \<Rightarrow>
                     (Inr \<lparr>Parent = c, ID = i\<rparr>,
                      s\<lparr>documents := documents s @ [(\<lparr>Parent = c, ID = i\<rparr>, kvs)],
                        fresh_ids := ids\<rparr>))
            | _ \<Rightarrow> (Inl InvalidArgument, s)))"

definition mem_Get :: "DocumentRef \<Rightarrow> mem_store \<Rightarrow> mem_error + DocumentSnapshot" where
  "mem_Get r s =
     (if \<not> online s then Inl Unavailable
      else (case map_of (documents s) r of
              None \<Rightarrow> Inl NotFound
            | Some kvs \<Rightarrow> Inr \<lparr>Ref = r, Data = kvs\<rparr>))"

definition merge_fields :: "(string \<times> fvalue) list \<Rightarrow> (string \<times> fvalue) list \<Rightarrow> (string \<times> fvalue) list" where
  "merge_fields new old = new @ filter (\<lambda>(k, x). map_of new k = None) old"

definition mem_Set :: "DocumentRef \<Rightarrow> fvalue \<Rightarrow> mem_store \<Rightarrow> mem_error option \<times> mem_store" where
  "mem_Set r d s =
     (if \<not> online s then (Some Unavailable, s)
      else (case d of
              VMap kvs \<Rightarrow>
                (case map_of (documents s) r of
                   None \<Rightarrow> (None, s\<lparr>documents := documents s @ [(r, kvs)]\<rparr>)
                 | Some old \<Rightarrow>
                     (None, s\<lparr>documents :=
                        map (\<lambda>(r', fs'). if r' = r then (r', merge_fields kvs fs') else (r', fs'))
                          (documents s)\<rparr>))
            | _ \<Rightarrow> (Some InvalidArgument, s)))"

definition mem_Delete :: "DocumentRef \<Rightarrow> mem_store \<Rightarrow> mem_error option \<times> mem_store" where
  "mem_Delete r s =
     (if \<not> online s then (Some Unavailable, s)
      else (None, s\<lparr>documents := filter (\<lambda>(r', fs'). r' \<noteq> r) (documents s)\<rparr>))"

definition mem_client :: "(mem_store, mem_error) Client" where
  "mem_client =
     \<lparr>Documents_GetAll = mem_GetAll,
      Collection_Add = mem_Add,
      DocumentRef_Get = mem_Get,
      DocumentRef_Set = mem_Set,
      DocumentRef_Delete = mem_Delete\<rparr>"

text \<open>A client whose reads of a single document fail: the post-insert read of \<open>Add\<close>.\<close>

definition unreadable_client :: "(mem_store, mem_error) Client" where
  "unreadable_client = mem_client\<lparr>DocumentRef_Get := \<lambda>r s. Inl Unavailable\<rparr>"

definition mem_error_message :: "mem_error \<Rightarrow> string" where
  "mem_error_message e =
     (case e of
        Unavailable \<Rightarrow> ''unavailable''
      | InvalidArgument \<Rightarrow> ''invalid argument''
      | NotFound \<Rightarrow> ''not found'')"

subsection \<open>Example stores\<close>

text \<open>The scenario of the spec: \<open>users\<close> holds \<open>{name: a, age: 30}\<close> and \<open>{name: b, age: 25}\<close>.\<close>

definition user_a :: "(string \<times> fvalue) list" where
  "user_a = [(''name'', VString ''a''), (''age'', VInt 30)]"

definition user_b :: "(string \<times> fvalue) list" where
  "user_b = [(''name'', VString ''b''), (''age'', VInt 25)]"

definition users_store :: mem_store where
  "users_store =
     \<lparr>online = True,
      documents = [(\<lparr>Parent = ''users'', ID = ''u1''\<rparr>, user_a),
                   (\<lparr>Parent = ''users'', ID = ''u2''\<rparr>, user_b)],
      fresh_ids = [''u3'', ''u4'']\<rparr>"

definition empty_store :: mem_store where
  "empty_store = \<lparr>online = True, documents = [], fresh_ids = [''d1'', ''d2'']\<rparr>"

definition offline_store :: mem_store where
  "offline_store = users_store\<lparr>online := False\<rparr>"


text \<open>A new user, and \<open>users_store\<close> after the in-memory client has added it.\<close>

definition user_c :: "(string \<times> fvalue) list" where
  "user_c = [(''name'', VString ''c''), (''age'', VInt 41)]"

definition users_store_added :: mem_store where
  "users_store_added =
     \<lparr>online = True,
      documents = [(\<lparr>Parent = ''users'', ID = ''u1''\<rparr>, user_a),
                   (\<lparr>Parent = ''users'', ID = ''u2''\<rparr>, user_b),
                   (\<lparr>Parent = ''users'', ID = ''u3''\<rparr>, user_c)],
      fresh_ids = [''u4'']\<rparr>"

text \<open>\<open>users_store\<close> after the in-memory client has deleted the document \<open>u1\<close>.\<close>

definition users_store_deleted :: mem_store where
  "users_store_deleted =
     \<lparr>online = True,
      documents = [(\<lparr>Parent = ''users'', ID = ''u2''\<rparr>, user_b)],
      fresh_ids = [''u3'', ''u4'']\<rparr>"

section \<open>Properties of the facade\<close>

subsection \<open>Auxiliary facts\<close>

lemmas builder_defs = Collection_def Where_def OrderBy_def Limit_def

lemma index_slice_Cons: "index_slice (d # ds) 0 = Inr d"
  by (simp add: index_slice_def)

lemma index_slice_Nil: "index_slice [] 0 = Inl (IndexOutOfRange 0 0)"
  by (simp add: index_slice_def)

lemma mem_offline: "Documents_GetAll mem_client q offline_store = Inl Unavailable"
  by (simp add: mem_client_def mem_GetAll_def offline_store_def)

text \<open>
  Each find operation in terms of the client's answer to the query it builds, with the
  builder calls evaluated.
\<close>

lemma FindOneByField_eq:
  "FindOneByField fs c f op v s =
     (case Documents_GetAll fs \<lparr>collection = c, filters = [(f, op, v)], orders = [],
             limit = Some 1\<rparr> s of
        Inl e \<Rightarrow> Inr (Inl ErrDocsNotFound)
      | Inr [] \<Rightarrow> Inr (Inl ErrNotFound)
      | Inr (d # ds) \<Rightarrow> Inr (Inr d))"
  by (simp add: FindOneByField_def builder_defs index_slice_def split: sum.splits list.splits)

lemma FindOneByTwoFields_eq:
  "FindOneByTwoFields fs c ff fop fv sf sop sv s =
     (case Documents_GetAll fs \<lparr>collection = c, filters = [(ff, fop, fv), (sf, sop, sv)],
             orders = [], limit = Some 1\<rparr> s of
        Inl e \<Rightarrow> Inr (Inl ErrDocsNotFound)
      | Inr [] \<Rightarrow> Inr (Inl ErrNotFound)
      | Inr (d # ds) \<Rightarrow> Inr (Inr d))"
  by (simp add: FindOneByTwoFields_def builder_defs index_slice_def split: sum.splits list.splits)

lemma FindAllByField_eq:
  "FindAllByField fs c f op v s =
     (case Documents_GetAll fs \<lparr>collection = c, filters = [(f, op, v)], orders = [],
             limit = None\<rparr> s of
        Inl e \<Rightarrow> Inl ErrDocsNotFound
      | Inr ds \<Rightarrow> if ds = [] then Inl ErrNotFound else Inr ds)"
  by (simp add: FindAllByField_def builder_defs split: sum.splits)

lemma FindAllByTwoFields_eq:
  "FindAllByTwoFields fs c ff fop fv sf sop sv s =
     (case Documents_GetAll fs \<lparr>collection = c, filters = [(ff, fop, fv), (sf, sop, sv)],
             orders = [], limit = None\<rparr> s of
        Inl e \<Rightarrow> Inl ErrDocsNotFound
      | Inr ds \<Rightarrow> if ds = [] then Inl ErrNotFound else Inr ds)"
  by (simp add: FindAllByTwoFields_def builder_defs split: sum.splits)

lemma FindAllByFieldAndOrder_eq:
  "FindAllByFieldAndOrder fs c f op v p dir s =
     (case Documents_GetAll fs \<lparr>collection = c, filters = [(f, op, v)], orders = [(p, dir)],
             limit = None\<rparr> s of
        Inl e \<Rightarrow> Inl ErrDocsNotFound
      | Inr ds \<Rightarrow> if ds = [] then Inl ErrNotFound else Inr ds)"
  by (simp add: FindAllByFieldAndOrder_def builder_defs split: sum.splits)

lemma FindFromArray_eq:
  "FindFromArray fs c f a s =
     (case Documents_GetAll fs \<lparr>collection = c, filters = [(f, ''array-contains'', VString a)],
             orders = [], limit = None\<rparr> s of
        Inl e \<Rightarrow> Inl ErrDocsNotFound
      | Inr ds \<Rightarrow> if ds = [] then Inl ErrNotFound else Inr ds)"
  by (simp add: FindFromArray_def builder_defs split: sum.splits)

lemma GetAll_eq:
  "GetAll fs c s =
     (case Documents_GetAll fs \<lparr>collection = c, filters = [], orders = [], limit = None\<rparr> s of
        Inl e \<Rightarrow> Inl ErrDocsNotFound
      | Inr ds \<Rightarrow> if ds = [] then Inl ErrNotFound else Inr ds)"
  by (simp add: GetAll_def builder_defs split: sum.splits)

lemma GetAllByOrder_eq:
  "GetAllByOrder fs c p dir s =
     (case Documents_GetAll fs \<lparr>collection = c, filters = [], orders = [(p, dir)],
             limit = None\<rparr> s of
        Inl e \<Rightarrow> Inl ErrDocsNotFound
      | Inr ds \<Rightarrow> if ds = [] then Inl ErrNotFound else Inr ds)"
  by (simp add: GetAllByOrder_def builder_defs split: sum.splits)

lemmas find_eqs = FindOneByField_eq FindOneByTwoFields_eq FindAllByField_eq
  FindAllByTwoFields_eq FindAllByFieldAndOrder_eq FindFromArray_eq GetAll_eq GetAllByOrder_eq

text \<open>The in-memory client on a store without documents.\<close>

lemma sort_by_Nil: "sort_by ord [] = []"
  by (simp add: sort_by_def split: prod.splits)

lemma foldr_sort_by_Nil: "foldr sort_by os [] = []"
  by (induction os) (simp_all add: sort_by_Nil)

lemma mem_empty:
  "list_all (\<lambda>flt. valid_op (fst (snd flt))) (filters q) \<Longrightarrow> limit q = None \<or> limit q = Some 1
    \<Longrightarrow> Documents_GetAll mem_client q empty_store = Inr []"
  by (auto simp add: mem_client_def mem_GetAll_def empty_store_def foldr_sort_by_Nil)

text \<open>\<open>Update\<close> with the format string evaluated.\<close>

lemma Update_eq:
  "Update fs df data s =
     (case DocumentRef_Set fs df data s of
        (Some e, s') \<Rightarrow> (Some (WithMessage (ClientError e) ''updating document %!s(MISSING)''), s')
      | (None, s') \<Rightarrow> (None, s'))"
  by (simp add: Update_def Wrapf_def split: prod.splits option.splits)

text \<open>
  The in-memory client answers a query with documents of the collection that satisfy every
  filter, and with no more documents than the limit.
\<close>

lemma set_insert_by: "set (insert_by lt x xs) = insert x (set xs)"
  by (induction xs) auto

lemma set_foldr_insert_by: "set (foldr (insert_by lt) xs []) = set xs"
  by (induction xs) (simp_all add: set_insert_by)

lemma set_sort_by: "set (sort_by ord ds) \<subseteq> set ds"
  by (cases ord) (auto simp add: sort_by_def set_foldr_insert_by)

lemma set_foldr_sort_by: "set (foldr sort_by os ds) \<subseteq> set ds"
proof (induction os)
  case Nil
  show ?case by simp
next
  case (Cons ord os)
  have "set (sort_by ord (foldr sort_by os ds)) \<subseteq> set (foldr sort_by os ds)"
    by (rule set_sort_by)
  with Cons show ?case by auto
qed

lemma mem_GetAll_sound:
  assumes "mem_GetAll q s = Inr ds" and "d \<in> set ds"
  shows "Parent (Ref d) = collection q \<and> list_all (satisfies (Data d)) (filters q)"
proof -
  let ?found = "map (\<lambda>(r, kvs). \<lparr>Ref = r, Data = kvs\<rparr>)
      (filter (\<lambda>(r, kvs). Parent r = collection q \<and> list_all (satisfies kvs) (filters q))
         (documents s))"
  from assms(1) have "set ds \<subseteq> set (foldr sort_by (orders q) ?found)"
    by (auto simp add: mem_GetAll_def Let_def split: if_splits option.splits dest: in_set_takeD)
  with set_foldr_sort_by [of "orders q" ?found] assms(2) have "d \<in> set ?found"
    by blast
  then show ?thesis by auto
qed

lemma mem_GetAll_limit:
  "mem_GetAll q s = Inr ds \<Longrightarrow> limit q = Some n \<Longrightarrow> int (length ds) \<le> n"
  by (auto simp add: mem_GetAll_def Let_def split: if_splits)

text \<open>Two queries on \<open>users_store\<close>, and the queries of the client with failing reads.\<close>

lemma mem_users_age_limit1:
  "Documents_GetAll mem_client
     \<lparr>collection = ''users'', filters = [(''age'', ''>'', VInt 0)], orders = [],
      limit = Some 1\<rparr> users_store
   = Inr [\<lparr>Ref = \<lparr>Parent = ''users'', ID = ''u1''\<rparr>, Data = user_a\<rparr>]"
  by (simp add: mem_client_def mem_GetAll_def users_store_def user_a_def user_b_def
      valid_op_def satisfies_def holds_def)

lemma mem_users_two_fields:
  "FindOneByTwoFields mem_client ''users'' ''name'' ''=='' (VString ''b'') ''age'' ''<'' (VInt 26)
     users_store
   = Inr (Inr \<lparr>Ref = \<lparr>Parent = ''users'', ID = ''u2''\<rparr>, Data = user_b\<rparr>)"
  by (simp add: FindOneByTwoFields_eq mem_client_def mem_GetAll_def users_store_def user_a_def
      user_b_def valid_op_def satisfies_def holds_def)



subsection \<open>A failed query is reported as \<open>ErrDocsNotFound\<close>\<close>

text \<open>
  Claim C1. In each of the eight find operations, when the client's query call fails, with
  whatever error \<open>e\<close>, the operation returns \<open>ErrDocsNotFound\<close> and not \<open>ErrNotFound\<close>.
  The query of each hypothesis is the one the operation hands to the client.
\<close>

theorem find_query_failure_returns_ErrDocsNotFound:
  "(Documents_GetAll fs \<lparr>collection = c, filters = [(f, op, v)], orders = [], limit = Some 1\<rparr> s = Inl e
      \<longrightarrow> FindOneByField fs c f op v s = Inr (Inl ErrDocsNotFound)
          \<and> FindOneByField fs c f op v s \<noteq> Inr (Inl ErrNotFound))
 \<and> (Documents_GetAll fs \<lparr>collection = c, filters = [(ff, fop, fv), (sf, sop, sv)], orders = [],
        limit = Some 1\<rparr> s = Inl e
      \<longrightarrow> FindOneByTwoFields fs c ff fop fv sf sop sv s = Inr (Inl ErrDocsNotFound)
          \<and> FindOneByTwoFields fs c ff fop fv sf sop sv s \<noteq> Inr (Inl ErrNotFound))
 \<and> (Documents_GetAll fs \<lparr>collection = c, filters = [(f, op, v)], orders = [], limit = None\<rparr> s = Inl e
      \<longrightarrow> FindAllByField fs c f op v s = Inl ErrDocsNotFound
          \<and> FindAllByField fs c f op v s \<noteq> Inl ErrNotFound)
 \<and> (Documents_GetAll fs \<lparr>collection = c, filters = [(ff, fop, fv), (sf, sop, sv)], orders = [],
        limit = None\<rparr> s = Inl e
      \<longrightarrow> FindAllByTwoFields fs c ff fop fv sf sop sv s = Inl ErrDocsNotFound
          \<and> FindAllByTwoFields fs c ff fop fv sf sop sv s \<noteq> Inl ErrNotFound)
 \<and> (Documents_GetAll fs \<lparr>collection = c, filters = [(f, op, v)], orders = [(p, dir)],
        limit = None\<rparr> s = Inl e
      \<longrightarrow> FindAllByFieldAndOrder fs c f op v p dir s = Inl ErrDocsNotFound
          \<and> FindAllByFieldAndOrder fs c f op v p dir s \<noteq> Inl ErrNotFound)
 \<and> (Documents_GetAll fs \<lparr>collection = c, filters = [(f, ''array-contains'', VString a)],
        orders = [], limit = None\<rparr> s = Inl e
      \<longrightarrow> FindFromArray fs c f a s = Inl ErrDocsNotFound
          \<and> FindFromArray fs c f a s \<noteq> Inl ErrNotFound)
 \<and> (Documents_GetAll fs \<lparr>collection = c, filters = [], orders = [], limit = None\<rparr> s = Inl e
      \<longrightarrow> GetAll fs c s = Inl ErrDocsNotFound \<and> GetAll fs c s \<noteq> Inl ErrNotFound)
 \<and> (Documents_GetAll fs \<lparr>collection = c, filters = [], orders = [(p, dir)], limit = None\<rparr> s = Inl e
      \<longrightarrow> GetAllByOrder fs c p dir s = Inl ErrDocsNotFound
          \<and> GetAllByOrder fs c p dir s \<noteq> Inl ErrNotFound)"
  by (simp add: FindOneByField_def FindOneByTwoFields_def FindAllByField_def
      FindAllByTwoFields_def FindAllByFieldAndOrder_def FindFromArray_def GetAll_def
      GetAllByOrder_def builder_defs)

text \<open>The eight operations on a store that is offline.\<close>

theorem find_query_failure_witness:
  "Documents_GetAll mem_client
     \<lparr>collection = ''users'', filters = [(''name'', ''=='', VString ''a'')], orders = [],
      limit = Some 1\<rparr> offline_store = Inl Unavailable
   \<and> FindOneByField mem_client ''users'' ''name'' ''=='' (VString ''a'') offline_store
       = Inr (Inl ErrDocsNotFound)
   \<and> FindOneByTwoFields mem_client ''users'' ''name'' ''=='' (VString ''a'') ''age'' ''>'' (VInt 0)
       offline_store = Inr (Inl ErrDocsNotFound)
   \<and> FindAllByField mem_client ''users'' ''name'' ''=='' (VString ''a'') offline_store
       = Inl ErrDocsNotFound
   \<and> FindAllByTwoFields mem_client ''users'' ''name'' ''=='' (VString ''a'') ''age'' ''>'' (VInt 0)
       offline_store = Inl ErrDocsNotFound
   \<and> FindAllByFieldAndOrder mem_client ''users'' ''name'' ''=='' (VString ''a'') ''age'' Asc
       offline_store = Inl ErrDocsNotFound
   \<and> FindFromArray mem_client ''users'' ''name'' ''a'' offline_store = Inl ErrDocsNotFound
   \<and> GetAll mem_client ''users'' offline_store = Inl ErrDocsNotFound
   \<and> GetAllByOrder mem_client ''users'' ''age'' Asc offline_store = Inl ErrDocsNotFound"
  using find_query_failure_returns_ErrDocsNotFound
    [where fs = mem_client and s = offline_store and e = Unavailable and c = "''users''"
       and f = "''name''" and op = "''==''" and v = "VString ''a''" and a = "''a''"
       and ff = "''name''" and fop = "''==''" and fv = "VString ''a''"
       and sf = "''age''" and sop = "''>''" and sv = "VInt 0" and p = "''age''" and dir = Asc]
  by (simp add: mem_offline)

subsection \<open>An empty result is reported as \<open>ErrNotFound\<close>\<close>

text \<open>
  Claim C2. In each of the eight find operations, when the client's query call succeeds
  with no document, the operation returns \<open>ErrNotFound\<close>. No find-all operation returns
  a success with the empty sequence, and a find-one operation that succeeds returns the
  first snapshot of a non-empty answer of the client (a success carries a snapshot: the
  \<open>nil\<close> snapshot of the source is returned only together with an error).
\<close>

theorem empty_result_returns_ErrNotFound:
  "(Documents_GetAll fs \<lparr>collection = c, filters = [(f, op, v)], orders = [], limit = Some 1\<rparr> s = Inr []
      \<longrightarrow> FindOneByField fs c f op v s = Inr (Inl ErrNotFound))
 \<and> (Documents_GetAll fs \<lparr>collection = c, filters = [(ff, fop, fv), (sf, sop, sv)], orders = [],
        limit = Some 1\<rparr> s = Inr []
      \<longrightarrow> FindOneByTwoFields fs c ff fop fv sf sop sv s = Inr (Inl ErrNotFound))
 \<and> (Documents_GetAll fs \<lparr>collection = c, filters = [(f, op, v)], orders = [], limit = None\<rparr> s = Inr []
      \<longrightarrow> FindAllByField fs c f op v s = Inl ErrNotFound)
 \<and> (Documents_GetAll fs \<lparr>collection = c, filters = [(ff, fop, fv), (sf, sop, sv)], orders = [],
        limit = None\<rparr> s = Inr []
      \<longrightarrow> FindAllByTwoFields fs c ff fop fv sf sop sv s = Inl ErrNotFound)
 \<and> (Documents_GetAll fs \<lparr>collection = c, filters = [(f, op, v)], orders = [(p, dir)],
        limit = None\<rparr> s = Inr []
      \<longrightarrow> FindAllByFieldAndOrder fs c f op v p dir s = Inl ErrNotFound)
 \<and> (Documents_GetAll fs \<lparr>collection = c, filters = [(f, ''array-contains'', VString a)],
        orders = [], limit = None\<rparr> s = Inr []
      \<longrightarrow> FindFromArray fs c f a s = Inl ErrNotFound)
 \<and> (Documents_GetAll fs \<lparr>collection = c, filters = [], orders = [], limit = None\<rparr> s = Inr []
      \<longrightarrow> GetAll fs c s = Inl ErrNotFound)
 \<and> (Documents_GetAll fs \<lparr>collection = c, filters = [], orders = [(p, dir)], limit = None\<rparr> s = Inr []
      \<longrightarrow> GetAllByOrder fs c p dir s = Inl ErrNotFound)
 \<and> FindAllByField fs c f op v s \<noteq> Inr []
 \<and> FindAllByTwoFields fs c ff fop fv sf sop sv s \<noteq> Inr []
 \<and> FindAllByFieldAndOrder fs c f op v p dir s \<noteq> Inr []
 \<and> FindFromArray fs c f a s \<noteq> Inr []
 \<and> GetAll fs c s \<noteq> Inr []
 \<and> GetAllByOrder fs c p dir s \<noteq> Inr []
 \<and> (FindOneByField fs c f op v s = Inr (Inr d)
      \<longrightarrow> (\<exists>ds. Documents_GetAll fs \<lparr>collection = c, filters = [(f, op, v)], orders = [],
                  limit = Some 1\<rparr> s = Inr (d # ds)))
 \<and> (FindOneByTwoFields fs c ff fop fv sf sop sv s = Inr (Inr d)
      \<longrightarrow> (\<exists>ds. Documents_GetAll fs \<lparr>collection = c, filters = [(ff, fop, fv), (sf, sop, sv)],
                  orders = [], limit = Some 1\<rparr> s = Inr (d # ds)))"
  by (intro conjI impI; simp add: find_eqs split: sum.splits list.splits)

text \<open>
  The eight operations on a store that holds no document, and the two find-one operations
  succeeding on \<open>users_store\<close>.
\<close>

theorem empty_result_witness:
  "FindOneByField mem_client ''users'' ''name'' ''=='' (VString ''a'') empty_store
       = Inr (Inl ErrNotFound)
   \<and> FindOneByTwoFields mem_client ''users'' ''name'' ''=='' (VString ''a'') ''age'' ''>'' (VInt 0)
       empty_store = Inr (Inl ErrNotFound)
   \<and> FindAllByField mem_client ''users'' ''name'' ''=='' (VString ''a'') empty_store
       = Inl ErrNotFound
   \<and> FindAllByTwoFields mem_client ''users'' ''name'' ''=='' (VString ''a'') ''age'' ''>'' (VInt 0)
       empty_store = Inl ErrNotFound
   \<and> FindAllByFieldAndOrder mem_client ''users'' ''name'' ''=='' (VString ''a'') ''age'' Asc
       empty_store = Inl ErrNotFound
   \<and> FindFromArray mem_client ''users'' ''name'' ''a'' empty_store = Inl ErrNotFound
   \<and> GetAll mem_client ''users'' empty_store = Inl ErrNotFound
   \<and> GetAllByOrder mem_client ''users'' ''age'' Asc empty_store = Inl ErrNotFound
   \<and> (\<exists>ds. Documents_GetAll mem_client
          \<lparr>collection = ''users'', filters = [(''age'', ''>'', VInt 0)], orders = [],
           limit = Some 1\<rparr> users_store
        = Inr (\<lparr>Ref = \<lparr>Parent = ''users'', ID = ''u1''\<rparr>, Data = user_a\<rparr> # ds))
   \<and> (\<exists>ds. Documents_GetAll mem_client
          \<lparr>collection = ''users'',
           filters = [(''name'', ''=='', VString ''b''), (''age'', ''<'', VInt 26)],
           orders = [], limit = Some 1\<rparr> users_store
        = Inr (\<lparr>Ref = \<lparr>Parent = ''users'', ID = ''u2''\<rparr>, Data = user_b\<rparr> # ds))"
proof -
  note empty = empty_result_returns_ErrNotFound
    [where fs = mem_client and s = empty_store and c = "''users''"
       and f = "''name''" and op = "''==''" and v = "VString ''a''" and a = "''a''"
       and ff = "''name''" and fop = "''==''" and fv = "VString ''a''"
       and sf = "''age''" and sop = "''>''" and sv = "VInt 0" and p = "''age''" and dir = Asc
       and d = "\<lparr>Ref = \<lparr>Parent = ''users'', ID = ''u1''\<rparr>, Data = user_a\<rparr>"]
  note one = empty_result_returns_ErrNotFound
    [where fs = mem_client and s = users_store and c = "''users''"
       and f = "''age''" and op = "''>''" and v = "VInt 0" and a = "''a''"
       and ff = "''name''" and fop = "''==''" and fv = "VString ''a''"
       and sf = "''age''" and sop = "''>''" and sv = "VInt 0" and p = "''age''" and dir = Asc
       and d = "\<lparr>Ref = \<lparr>Parent = ''users'', ID = ''u1''\<rparr>, Data = user_a\<rparr>"]
  note two = empty_result_returns_ErrNotFound
    [where fs = mem_client and s = users_store and c = "''users''"
       and f = "''age''" and op = "''>''" and v = "VInt 0" and a = "''a''"
       and ff = "''name''" and fop = "''==''" and fv = "VString ''b''"
       and sf = "''age''" and sop = "''<''" and sv = "VInt 26" and p = "''age''" and dir = Asc
       and d = "\<lparr>Ref = \<lparr>Parent = ''users'', ID = ''u2''\<rparr>, Data = user_b\<rparr>"]
  have none: "Documents_GetAll mem_client
      \<lparr>collection = ''users'', filters = flts, orders = os, limit = lim\<rparr> empty_store = Inr []"
    if "list_all (\<lambda>flt. valid_op (fst (snd flt))) flts" and "lim = None \<or> lim = Some 1"
    for flts os lim
    using that by (simp add: mem_empty)
  have ops: "valid_op ''==''" "valid_op ''>''" "valid_op ''array-contains''"
    by (simp_all add: valid_op_def)
  have found: "FindOneByField mem_client ''users'' ''age'' ''>'' (VInt 0) users_store
      = Inr (Inr \<lparr>Ref = \<lparr>Parent = ''users'', ID = ''u1''\<rparr>, Data = user_a\<rparr>)"
    by (simp add: FindOneByField_eq mem_users_age_limit1)
  from empty none ops
  have part1: "FindOneByField mem_client ''users'' ''name'' ''=='' (VString ''a'') empty_store
       = Inr (Inl ErrNotFound)
   \<and> FindOneByTwoFields mem_client ''users'' ''name'' ''=='' (VString ''a'') ''age'' ''>'' (VInt 0)
       empty_store = Inr (Inl ErrNotFound)
   \<and> FindAllByField mem_client ''users'' ''name'' ''=='' (VString ''a'') empty_store
       = Inl ErrNotFound
   \<and> FindAllByTwoFields mem_client ''users'' ''name'' ''=='' (VString ''a'') ''age'' ''>'' (VInt 0)
       empty_store = Inl ErrNotFound
   \<and> FindAllByFieldAndOrder mem_client ''users'' ''name'' ''=='' (VString ''a'') ''age'' Asc
       empty_store = Inl ErrNotFound
   \<and> FindFromArray mem_client ''users'' ''name'' ''a'' empty_store = Inl ErrNotFound
   \<and> GetAll mem_client ''users'' empty_store = Inl ErrNotFound
   \<and> GetAllByOrder mem_client ''users'' ''age'' Asc empty_store = Inl ErrNotFound"
    by simp
  from one found
  have part2: "\<exists>ds. Documents_GetAll mem_client
          \<lparr>collection = ''users'', filters = [(''age'', ''>'', VInt 0)], orders = [],
           limit = Some 1\<rparr> users_store
        = Inr (\<lparr>Ref = \<lparr>Parent = ''users'', ID = ''u1''\<rparr>, Data = user_a\<rparr> # ds)"
    by blast
  from two mem_users_two_fields
  have part3: "\<exists>ds. Documents_GetAll mem_client
          \<lparr>collection = ''users'',
           filters = [(''name'', ''=='', VString ''b''), (''age'', ''<'', VInt 26)],
           orders = [], limit = Some 1\<rparr> users_store
        = Inr (\<lparr>Ref = \<lparr>Parent = ''users'', ID = ''u2''\<rparr>, Data = user_b\<rparr> # ds)"
    by blast
  from part1 part2 part3 show ?thesis by blast
qed

subsection \<open>\<open>Add\<close>\<close>

text \<open>
  Claim C3. \<open>Add\<close> first inserts the data through the client. When the insert fails, it
  returns the client's error wrapped with the message \<open>adding document\<close>. When the insert
  succeeds, it reads the new document through the reference the insert returned, in the
  state after the insert: a failed read is returned wrapped with the message
  \<open>getting document snapshot from firebase\<close>, a successful read returns its snapshot. The
  error that \<open>Add\<close> returns is never one of the package-level values: its cause is the
  client's error, and its message is the context followed by the client's message.
\<close>

theorem Add_inserts_then_reads_back:
  "(Collection_Add fs c d s = (Inl e, s')
      \<longrightarrow> Add fs c d s = (Inl (WithMessage (ClientError e) ''adding document''), s')
          \<and> Error cmsg (WithMessage (ClientError e) ''adding document'')
              = ''adding document: '' @ cmsg e)
 \<and> (Collection_Add fs c d s = (Inr dRef, s') \<and> DocumentRef_Get fs dRef s' = Inl e
      \<longrightarrow> Add fs c d s
            = (Inl (WithMessage (ClientError e) ''getting document snapshot from firebase''), s')
          \<and> Error cmsg (WithMessage (ClientError e) ''getting document snapshot from firebase'')
              = ''getting document snapshot from firebase: '' @ cmsg e)
 \<and> (Collection_Add fs c d s = (Inr dRef, s') \<and> DocumentRef_Get fs dRef s' = Inr ds
      \<longrightarrow> Add fs c d s = (Inr ds, s'))
 \<and> (fst (Add fs c d s) = Inl err
      \<longrightarrow> (\<exists>e. Cause err = ClientError e)
          \<and> err \<noteq> ErrNotFound \<and> err \<noteq> ErrInvalidID \<and> err \<noteq> ErrDocsNotFound
          \<and> err \<noteq> ErrForbidden)"
  by (intro conjI impI; auto simp add: Add_def Wrap_def split: prod.splits sum.splits)

text \<open>
  A failed insert on the offline store, a failed read after a successful insert, and a
  successful insert and read.
\<close>

theorem Add_witness:
  "Add mem_client ''users'' (VMap user_c) offline_store
     = (Inl (WithMessage (ClientError Unavailable) ''adding document''), offline_store)
   \<and> Add unreadable_client ''users'' (VMap user_c) users_store
     = (Inl (WithMessage (ClientError Unavailable) ''getting document snapshot from firebase''),
        users_store_added)
   \<and> Add mem_client ''users'' (VMap user_c) users_store
     = (Inr \<lparr>Ref = \<lparr>Parent = ''users'', ID = ''u3''\<rparr>, Data = user_c\<rparr>, users_store_added)
   \<and> Cause (WithMessage (ClientError Unavailable) ''adding document'' :: mem_error store_error)
     = ClientError Unavailable"
proof -
  have a1: "Collection_Add mem_client ''users'' (VMap user_c) offline_store
      = (Inl Unavailable, offline_store)"
    by (simp add: mem_client_def mem_Add_def offline_store_def)
  have a2: "Collection_Add unreadable_client ''users'' (VMap user_c) users_store
      = (Inr \<lparr>Parent = ''users'', ID = ''u3''\<rparr>, users_store_added)"
    by (simp add: unreadable_client_def mem_client_def mem_Add_def users_store_def
        users_store_added_def)
  have g2: "DocumentRef_Get unreadable_client \<lparr>Parent = ''users'', ID = ''u3''\<rparr>
      users_store_added = Inl Unavailable"
    by (simp add: unreadable_client_def)
  have a3: "Collection_Add mem_client ''users'' (VMap user_c) users_store
      = (Inr \<lparr>Parent = ''users'', ID = ''u3''\<rparr>, users_store_added)"
    by (simp add: mem_client_def mem_Add_def users_store_def users_store_added_def)
  have g3: "DocumentRef_Get mem_client \<lparr>Parent = ''users'', ID = ''u3''\<rparr> users_store_added
      = Inr \<lparr>Ref = \<lparr>Parent = ''users'', ID = ''u3''\<rparr>, Data = user_c\<rparr>"
    by (simp add: mem_client_def mem_Get_def users_store_added_def)
  from a1 a2 g2 a3 g3
    Add_inserts_then_reads_back [where fs = mem_client and c = "''users''" and d = "VMap user_c"
      and s = offline_store and s' = offline_store and e = Unavailable
      and err = "WithMessage (ClientError Unavailable) ''adding document''"]
    Add_inserts_then_reads_back [where fs = unreadable_client and c = "''users''"
      and d = "VMap user_c" and s = users_store and s' = users_store_added and e = Unavailable
      and dRef = "\<lparr>Parent = ''users'', ID = ''u3''\<rparr>"]
    Add_inserts_then_reads_back [where fs = mem_client and c = "''users''" and d = "VMap user_c"
      and s = users_store and s' = users_store_added
      and dRef = "\<lparr>Parent = ''users'', ID = ''u3''\<rparr>"
      and ds = "\<lparr>Ref = \<lparr>Parent = ''users'', ID = ''u3''\<rparr>, Data = user_c\<rparr>"]
  show ?thesis by simp
qed

subsection \<open>\<open>Delete\<close>\<close>

text \<open>
  Claim C4. \<open>Delete\<close> calls the client's delete on the reference and leaves the service in
  the state that call produced. When the call fails, \<open>Delete\<close> returns the client's error
  itself, neither wrapped nor replaced by a package-level error; when it succeeds,
  \<open>Delete\<close> returns \<open>nil\<close>.
\<close>

theorem Delete_passes_client_error_on:
  "(DocumentRef_Delete fs ref s = (Some e, s')
      \<longrightarrow> Delete fs ref s = (Some (ClientError e), s')
          \<and> Error cmsg (ClientError e) = cmsg e)
 \<and> (DocumentRef_Delete fs ref s = (None, s') \<longrightarrow> Delete fs ref s = (None, s'))"
  by (simp add: Delete_def)

text \<open>
  A failed delete on the offline store, and a delete that removes document \<open>u1\<close> from
  the in-memory store.
\<close>

theorem Delete_witness:
  "Delete mem_client \<lparr>Parent = ''users'', ID = ''u1''\<rparr> offline_store
     = (Some (ClientError Unavailable), offline_store)
   \<and> Delete mem_client \<lparr>Parent = ''users'', ID = ''u1''\<rparr> users_store
     = (None, users_store_deleted)"
proof -
  have fails: "DocumentRef_Delete mem_client \<lparr>Parent = ''users'', ID = ''u1''\<rparr> offline_store
      = (Some Unavailable, offline_store)"
    by (simp add: mem_client_def mem_Delete_def offline_store_def)
  have removes: "DocumentRef_Delete mem_client \<lparr>Parent = ''users'', ID = ''u1''\<rparr> users_store
      = (None, users_store_deleted)"
    by (simp add: mem_client_def mem_Delete_def users_store_def users_store_deleted_def)
  from fails removes
    Delete_passes_client_error_on [where fs = mem_client and s = offline_store
      and s' = offline_store and e = Unavailable and ref = "\<lparr>Parent = ''users'', ID = ''u1''\<rparr>"]
    Delete_passes_client_error_on [where fs = mem_client and s = users_store
      and s' = users_store_deleted and ref = "\<lparr>Parent = ''users'', ID = ''u1''\<rparr>"]
  show ?thesis by simp
qed

subsection \<open>\<open>Update\<close>\<close>

text \<open>
  Claim C5. The claim asks for a failure of \<open>Update\<close> to be described by the operation and
  the identifier of the target document. The source calls \<open>errors.Wrapf\<close> with the format
  \<open>updating document %s\<close> and no argument, so the message holds \<open>%!s(MISSING)\<close> where the
  identifier was meant to be: on the offline store, updating document \<open>u1\<close> returns the
  message \<open>updating document %!s(MISSING): unavailable\<close>. With the identifier supplied as
  the argument, the same call would produce \<open>updating document u1\<close>.
\<close>

theorem Update_failure_message_lacks_identifier:
  "Update mem_client \<lparr>Parent = ''users'', ID = ''u1''\<rparr> (VMap [(''age'', VInt 31)]) offline_store
     = (Some (WithMessage (ClientError Unavailable) ''updating document %!s(MISSING)''),
        offline_store)
   \<and> Error mem_error_message
        (WithMessage (ClientError Unavailable) ''updating document %!s(MISSING)'')
     = ''updating document %!s(MISSING): unavailable''
   \<and> Wrapf (ClientError Unavailable) ''updating document %s''
        [ID \<lparr>Parent = ''users'', ID = ''u1''\<rparr>]
     = WithMessage (ClientError Unavailable) ''updating document u1''"
  by (simp add: Update_eq Wrapf_def mem_client_def mem_Set_def offline_store_def
      mem_error_message_def)

subsection \<open>The example scenario\<close>

text \<open>
  Claim C7. With the in-memory client on the store of the scenario (\<open>users\<close> holds
  \<open>{name: a, age: 30}\<close> and \<open>{name: b, age: 25}\<close>, in this order),
  \<open>FindAllByFieldAndOrder\<close> with the filter \<open>age > 0\<close>, ordered by \<open>age\<close> ascending, returns
  the document of \<open>b\<close> and then the document of \<open>a\<close>.
\<close>

theorem users_scenario_sorted_by_age:
  "FindAllByFieldAndOrder mem_client ''users'' ''age'' ''>'' (VInt 0) ''age'' Asc users_store
     = Inr [\<lparr>Ref = \<lparr>Parent = ''users'', ID = ''u2''\<rparr>,
              Data = [(''name'', VString ''b''), (''age'', VInt 25)]\<rparr>,
            \<lparr>Ref = \<lparr>Parent = ''users'', ID = ''u1''\<rparr>,
              Data = [(''name'', VString ''a''), (''age'', VInt 30)]\<rparr>]"
  by (simp add: FindAllByFieldAndOrder_def mem_client_def mem_GetAll_def users_store_def
      user_a_def user_b_def builder_defs valid_op_def satisfies_def holds_def sort_by_def
      key_less_def)

subsection \<open>No find-one operation panics\<close>

text \<open>
  Claim C9. Indexing an empty slice at 0 panics, but no find-one operation ever panics:
  \<open>ds[0]\<close> is evaluated only after the check \<open>len(ds) <= 0\<close> has failed.
\<close>

theorem find_one_never_indexes_empty:
  "index_slice ([] :: DocumentSnapshot list) 0 = Inl (IndexOutOfRange 0 0)
 \<and> FindOneByField fs c f op v s \<noteq> Inl pnc
 \<and> FindOneByTwoFields fs c ff fop fv sf sop sv s \<noteq> Inl pnc"
  by (intro conjI; simp add: index_slice_Nil find_eqs split: sum.splits list.splits)

subsection \<open>The errors of the find operations\<close>

text \<open>
  Claim C10. Every error that a find operation returns is \<open>ErrDocsNotFound\<close> or
  \<open>ErrNotFound\<close>: the client's error is not part of it.
\<close>

theorem find_errors_are_the_two_sentinels:
  "(FindOneByField fs c f op v s = Inr (Inl err) \<longrightarrow> err = ErrDocsNotFound \<or> err = ErrNotFound)
 \<and> (FindOneByTwoFields fs c ff fop fv sf sop sv s = Inr (Inl err)
      \<longrightarrow> err = ErrDocsNotFound \<or> err = ErrNotFound)
 \<and> (FindAllByField fs c f op v s = Inl err \<longrightarrow> err = ErrDocsNotFound \<or> err = ErrNotFound)
 \<and> (FindAllByTwoFields fs c ff fop fv sf sop sv s = Inl err
      \<longrightarrow> err = ErrDocsNotFound \<or> err = ErrNotFound)
 \<and> (FindAllByFieldAndOrder fs c f op v p dir s = Inl err
      \<longrightarrow> err = ErrDocsNotFound \<or> err = ErrNotFound)
 \<and> (FindFromArray fs c f a s = Inl err \<longrightarrow> err = ErrDocsNotFound \<or> err = ErrNotFound)
 \<and> (GetAll fs c s = Inl err \<longrightarrow> err = ErrDocsNotFound \<or> err = ErrNotFound)
 \<and> (GetAllByOrder fs c p dir s = Inl err \<longrightarrow> err = ErrDocsNotFound \<or> err = ErrNotFound)"
  by (intro conjI impI; simp add: find_eqs split: sum.splits list.splits if_splits)

text \<open>
  The eight operations on the offline store return \<open>ErrDocsNotFound\<close>; on the store without
  documents \<open>FindAllByField\<close> returns \<open>ErrNotFound\<close>.
\<close>

theorem find_errors_witness:
  "FindOneByField mem_client ''users'' ''name'' ''=='' (VString ''a'') offline_store
       = Inr (Inl ErrDocsNotFound)
   \<and> FindOneByTwoFields mem_client ''users'' ''name'' ''=='' (VString ''a'') ''age'' ''>'' (VInt 0)
       offline_store = Inr (Inl ErrDocsNotFound)
   \<and> FindAllByField mem_client ''users'' ''name'' ''=='' (VString ''a'') offline_store
       = Inl ErrDocsNotFound
   \<and> FindAllByTwoFields mem_client ''users'' ''name'' ''=='' (VString ''a'') ''age'' ''>'' (VInt 0)
       offline_store = Inl ErrDocsNotFound
   \<and> FindAllByFieldAndOrder mem_client ''users'' ''name'' ''=='' (VString ''a'') ''age'' Asc
       offline_store = Inl ErrDocsNotFound
   \<and> FindFromArray mem_client ''users'' ''name'' ''a'' offline_store = Inl ErrDocsNotFound
   \<and> GetAll mem_client ''users'' offline_store = Inl ErrDocsNotFound
   \<and> GetAllByOrder mem_client ''users'' ''age'' Asc offline_store = Inl ErrDocsNotFound
   \<and> FindAllByField mem_client ''users'' ''name'' ''=='' (VString ''a'') empty_store
       = Inl ErrNotFound
   \<and> ((ErrDocsNotFound :: mem_error store_error) = ErrDocsNotFound
        \<or> (ErrDocsNotFound :: mem_error store_error) = ErrNotFound)
   \<and> ((ErrNotFound :: mem_error store_error) = ErrDocsNotFound
        \<or> (ErrNotFound :: mem_error store_error) = ErrNotFound)"
proof -
  note offline = find_errors_are_the_two_sentinels
    [where fs = mem_client and s = offline_store and c = "''users''"
       and f = "''name''" and op = "''==''" and v = "VString ''a''" and a = "''a''"
       and ff = "''name''" and fop = "''==''" and fv = "VString ''a''"
       and sf = "''age''" and sop = "''>''" and sv = "VInt 0" and p = "''age''" and dir = Asc
       and err = ErrDocsNotFound]
  note empty = find_errors_are_the_two_sentinels
    [where fs = mem_client and s = empty_store and c = "''users''"
       and f = "''name''" and op = "''==''" and v = "VString ''a''" and a = "''a''"
       and ff = "''name''" and fop = "''==''" and fv = "VString ''a''"
       and sf = "''age''" and sop = "''>''" and sv = "VInt 0" and p = "''age''" and dir = Asc
       and err = ErrNotFound]
  have failed: "FindOneByField mem_client ''users'' ''name'' ''=='' (VString ''a'') offline_store
       = Inr (Inl ErrDocsNotFound)"
    "FindOneByTwoFields mem_client ''users'' ''name'' ''=='' (VString ''a'') ''age'' ''>'' (VInt 0)
       offline_store = Inr (Inl ErrDocsNotFound)"
    "FindAllByField mem_client ''users'' ''name'' ''=='' (VString ''a'') offline_store
       = Inl ErrDocsNotFound"
    "FindAllByTwoFields mem_client ''users'' ''name'' ''=='' (VString ''a'') ''age'' ''>'' (VInt 0)
       offline_store = Inl ErrDocsNotFound"
    "FindAllByFieldAndOrder mem_client ''users'' ''name'' ''=='' (VString ''a'') ''age'' Asc
       offline_store = Inl ErrDocsNotFound"
    "FindFromArray mem_client ''users'' ''name'' ''a'' offline_store = Inl ErrDocsNotFound"
    "GetAll mem_client ''users'' offline_store = Inl ErrDocsNotFound"
    "GetAllByOrder mem_client ''users'' ''age'' Asc offline_store = Inl ErrDocsNotFound"
    by (simp_all add: find_eqs mem_offline)
  have absent: "FindAllByField mem_client ''users'' ''name'' ''=='' (VString ''a'') empty_store
       = Inl ErrNotFound"
    by (simp add: FindAllByField_eq mem_empty valid_op_def)
  from offline empty failed absent show ?thesis by blast
qed

subsection \<open>The find-one operations\<close>

text \<open>
  Claim C6. The query that \<open>FindOneByField\<close> and \<open>FindOneByTwoFields\<close> hand to the client has
  the limit 1, and \<open>FindOneByTwoFields\<close> puts both of its predicates into that one query.
  The operation succeeds exactly when the client answers that query with a non-empty
  sequence, and then it returns the first snapshot; when the client keeps to the limit, that
  snapshot is the whole answer. On the in-memory client, where the filters of a query are a
  conjunction, the snapshot that \<open>FindOneByTwoFields\<close> returns is in the collection and
  satisfies both predicates, and it is the only snapshot of the answer.
\<close>

theorem find_one_limit_first_and_conjunction:
  "(Documents_GetAll fs \<lparr>collection = c, filters = [(f, op, v)], orders = [], limit = Some 1\<rparr> s
        = Inr (d # ds)
      \<longrightarrow> FindOneByField fs c f op v s = Inr (Inr d))
 \<and> (FindOneByField fs c f op v s = Inr (Inr d)
      \<longrightarrow> (\<exists>ds. Documents_GetAll fs \<lparr>collection = c, filters = [(f, op, v)], orders = [],
                  limit = Some 1\<rparr> s = Inr (d # ds)))
 \<and> (FindOneByField fs c f op v s = Inr (Inr d)
      \<and> Documents_GetAll fs \<lparr>collection = c, filters = [(f, op, v)], orders = [],
            limit = Some 1\<rparr> s = Inr xs
      \<and> int (length xs) \<le> 1
      \<longrightarrow> xs = [d])
 \<and> (Documents_GetAll fs \<lparr>collection = c, filters = [(ff, fop, fv), (sf, sop, sv)], orders = [],
        limit = Some 1\<rparr> s = Inr (d # ds)
      \<longrightarrow> FindOneByTwoFields fs c ff fop fv sf sop sv s = Inr (Inr d))
 \<and> (FindOneByTwoFields fs c ff fop fv sf sop sv s = Inr (Inr d)
      \<longrightarrow> (\<exists>ds. Documents_GetAll fs \<lparr>collection = c, filters = [(ff, fop, fv), (sf, sop, sv)],
                  orders = [], limit = Some 1\<rparr> s = Inr (d # ds)))
 \<and> (FindOneByTwoFields fs c ff fop fv sf sop sv s = Inr (Inr d)
      \<and> Documents_GetAll fs \<lparr>collection = c, filters = [(ff, fop, fv), (sf, sop, sv)],
            orders = [], limit = Some 1\<rparr> s = Inr xs
      \<and> int (length xs) \<le> 1
      \<longrightarrow> xs = [d])
 \<and> (FindOneByTwoFields mem_client c ff fop fv sf sop sv ms = Inr (Inr md)
      \<longrightarrow> Parent (Ref md) = c
          \<and> satisfies (Data md) (ff, fop, fv) \<and> satisfies (Data md) (sf, sop, sv)
          \<and> Documents_GetAll mem_client
                \<lparr>collection = c, filters = [(ff, fop, fv), (sf, sop, sv)], orders = [],
                 limit = Some 1\<rparr> ms = Inr [md])"
proof (intro conjI impI)
  assume ok: "FindOneByTwoFields mem_client c ff fop fv sf sop sv ms = Inr (Inr md)"
  let ?q = "\<lparr>collection = c, filters = [(ff, fop, fv), (sf, sop, sv)], orders = [],
      limit = Some 1\<rparr>"
  from ok obtain rest where ans: "mem_GetAll ?q ms = Inr (md # rest)"
    by (auto simp add: FindOneByTwoFields_eq mem_client_def split: sum.splits list.splits)
  from mem_GetAll_limit [OF ans] have "rest = []" by simp
  with ans show "Documents_GetAll mem_client ?q ms = Inr [md]"
    by (simp add: mem_client_def)
  from mem_GetAll_sound [OF ans, of md]
  show "Parent (Ref md) = c" and "satisfies (Data md) (ff, fop, fv)"
    and "satisfies (Data md) (sf, sop, sv)"
    by simp_all
qed (auto simp add: find_eqs split: sum.splits list.splits)

text \<open>
  On \<open>users_store\<close> both users are older than 0 and the limit leaves the first one; only
  user \<open>b\<close> has the name \<open>b\<close> and an age below 26.
\<close>

theorem find_one_witness:
  "FindOneByField mem_client ''users'' ''age'' ''>'' (VInt 0) users_store
     = Inr (Inr \<lparr>Ref = \<lparr>Parent = ''users'', ID = ''u1''\<rparr>, Data = user_a\<rparr>)
   \<and> FindOneByTwoFields mem_client ''users'' ''name'' ''=='' (VString ''b'') ''age'' ''<'' (VInt 26)
       users_store
     = Inr (Inr \<lparr>Ref = \<lparr>Parent = ''users'', ID = ''u2''\<rparr>, Data = user_b\<rparr>)
   \<and> satisfies user_b (''name'', ''=='', VString ''b'')
   \<and> satisfies user_b (''age'', ''<'', VInt 26)
   \<and> Documents_GetAll mem_client
        \<lparr>collection = ''users'',
         filters = [(''name'', ''=='', VString ''b''), (''age'', ''<'', VInt 26)],
         orders = [], limit = Some 1\<rparr> users_store
     = Inr [\<lparr>Ref = \<lparr>Parent = ''users'', ID = ''u2''\<rparr>, Data = user_b\<rparr>]"
proof -
  note facts = find_one_limit_first_and_conjunction [where fs = mem_client and s = users_store
      and c = "''users''" and f = "''age''" and op = "''>''" and v = "VInt 0"
      and d = "\<lparr>Ref = \<lparr>Parent = ''users'', ID = ''u1''\<rparr>, Data = user_a\<rparr>" and ds = "[]"
      and ff = "''name''" and fop = "''==''" and fv = "VString ''b''"
      and sf = "''age''" and sop = "''<''" and sv = "VInt 26" and ms = users_store
      and md = "\<lparr>Ref = \<lparr>Parent = ''users'', ID = ''u2''\<rparr>, Data = user_b\<rparr>"]
  from facts mem_users_age_limit1
  have one: "FindOneByField mem_client ''users'' ''age'' ''>'' (VInt 0) users_store
      = Inr (Inr \<lparr>Ref = \<lparr>Parent = ''users'', ID = ''u1''\<rparr>, Data = user_a\<rparr>)"
    by blast
  from facts mem_users_two_fields
  have two: "satisfies (Data \<lparr>Ref = \<lparr>Parent = ''users'', ID = ''u2''\<rparr>, Data = user_b\<rparr>)
        (''name'', ''=='', VString ''b'')
      \<and> satisfies (Data \<lparr>Ref = \<lparr>Parent = ''users'', ID = ''u2''\<rparr>, Data = user_b\<rparr>)
        (''age'', ''<'', VInt 26)
      \<and> Documents_GetAll mem_client
        \<lparr>collection = ''users'',
         filters = [(''name'', ''=='', VString ''b''), (''age'', ''<'', VInt 26)],
         orders = [], limit = Some 1\<rparr> users_store
       = Inr [\<lparr>Ref = \<lparr>Parent = ''users'', ID = ''u2''\<rparr>, Data = user_b\<rparr>]"
    by blast
  from one two mem_users_two_fields show ?thesis by simp
qed

subsection \<open>The comparison values\<close>




end
